theory Spec2Isabelle
  imports Main "HOL-Library.Word"
begin

section \<open>Data model\<close>

text \<open>
  A buffer and a "binary" string (one character per byte) are both a list of bytes.
  Textual strings (names, OIDs, hex, base64, PEM) are \<open>string\<close>.
\<close>

type_synonym byte = "8 word"
type_synonym bytes = "byte list"

text \<open>
  Errors are values. A thrown JavaScript error is recorded with the name of its class and
  its message: the sources throw \<open>new Error(...)\<close> themselves, and reading a property of
  \<open>undefined\<close> makes the runtime throw a \<open>TypeError\<close>.
\<close>

datatype error = JsError (err_name: string) (err_message: string)

definition TypeError :: "string \<Rightarrow> error" where
  "TypeError msg = JsError ''TypeError'' msg"

text \<open>
  A certificate field of an issuer or subject name (\<open>forge.pki.CertificateField\<close>): the
  name and the value are optional in the library's type; the attribute's OID (\<open>type\<close>) and
  the ASN.1 type of its value (\<open>valueTagClass\<close>) are always set on a parsed certificate.
\<close>

record attribute =
  attr_name :: "string option"
  attr_type :: string
  attr_value :: "bytes option"
  valueTagClass :: nat

text \<open>
  The issuer or subject name of a certificate as the library holds it
  (\<open>cert.issuer\<close>, \<open>cert.subject\<close>): its attributes in order, and its \<open>hash\<close>, which
  on a parsed certificate is the hexadecimal SHA-1 digest of the DER encoding of the
  whole name (OIDs, string types of the values, values and grouping into RDNs) and is
  absent on a name that was built from attributes alone.
\<close>

record distinguished_name =
  attributes :: "attribute list"
  hash :: "string option"

text \<open>
  A parsed X.509 certificate (\<open>forge.pki.Certificate\<close>), with the fields the sources
  read. \<open>cert_body\<close> stands for everything else in the certificate (validity, public
  key, extensions, signature), which the sources only pass on to the library.
\<close>

record certificate =
  subject :: distinguished_name
  issuer :: distinguished_name
  serialNumber :: string
  cert_body :: bytes

text \<open>
  An ASN.1 node as \<open>forge.asn1.create(tagClass, type, constructed, value)\<close> builds it: the
  value is either a binary string or an array of nodes.
\<close>

datatype asn1 =
    Asn1Bytes (tagClass: nat) (tagType: nat) (constructed: bool) (content: bytes)
  | Asn1Nodes (tagClass: nat) (tagType: nat) (constructed: bool) (children: "asn1 list")

text \<open>The library's constants \<open>forge.asn1.Class\<close> and \<open>forge.asn1.Type\<close>.\<close>

definition UNIVERSAL :: nat where "UNIVERSAL = 0"
definition CONTEXT_SPECIFIC :: nat where "CONTEXT_SPECIFIC = 128"
definition INTEGER :: nat where "INTEGER = 2"
definition OCTETSTRING :: nat where "OCTETSTRING = 4"
definition OID :: nat where "OID = 6"
definition SEQUENCE :: nat where "SEQUENCE = 16"
definition SET :: nat where "SET = 17"

text \<open>
  The functions of the libraries that the sources call and that are not part of the
  repository are parameters of the model:
  \<^item> \<open>oids\<close>: the table \<open>forge.pki.oids\<close>, \<open>None\<close> where the lookup gives \<open>undefined\<close>;
  \<^item> \<open>oidToDer\<close>: \<open>forge.asn1.oidToDer(oid).getBytes()\<close>;
  \<^item> \<open>toDer\<close>: \<open>forge.asn1.toDer(node)\<close>, the DER bytes of a node;
  \<^item> \<open>encode64\<close>: \<open>forge.util.encode64\<close>;
  \<^item> \<open>certificateToAsn1\<close>, \<open>certificateToPem\<close>: \<open>forge.pki.certificateToAsn1\<close> and
    \<open>forge.pki.certificateToPem\<close>;
  \<^item> \<open>sha256\<close>: the digest \<open>forge.md.sha256\<close> of a byte string.
\<close>

record lib =
  oids :: "string \<Rightarrow> string option"
  oidToDer :: "string \<Rightarrow> bytes"
  toDer :: "asn1 \<Rightarrow> bytes"
  encode64 :: "bytes \<Rightarrow> string"
  certificateToAsn1 :: "certificate \<Rightarrow> asn1"
  certificateToPem :: "certificate \<Rightarrow> string"
  sha256 :: "bytes \<Rightarrow> bytes"

section \<open>Hexadecimal text and buffers\<close>

text \<open>
  \<open>Buffer.from(s, "hex")\<close> of the runtime: two hexadecimal digits (either case) make one
  byte; decoding stops at the first pair that is not two hexadecimal digits, and a single
  trailing character is ignored.
\<close>

definition unhex :: "char \<Rightarrow> nat option" where
  "unhex c =
     (let n = (of_char c :: nat) in
      if 48 \<le> n \<and> n \<le> 57 then Some (n - 48)
      else if 97 \<le> n \<and> n \<le> 102 then Some (n - 87)
      else if 65 \<le> n \<and> n \<le> 70 then Some (n - 55)
      else None)"

fun buffer_from_hex :: "string \<Rightarrow> bytes" where
  "buffer_from_hex (a # b # rest) =
     (case unhex a of
        None \<Rightarrow> []
      | Some h \<Rightarrow>
          (case unhex b of
             None \<Rightarrow> []
           | Some l \<Rightarrow> of_nat (h * 16 + l) # buffer_from_hex rest))"
| "buffer_from_hex _ = []"

text \<open>\<open>toHex()\<close> of a byte buffer: two lower-case hexadecimal digits per byte.\<close>

definition hex_digit :: "nat \<Rightarrow> char" where
  "hex_digit n = ''0123456789abcdef'' ! n"

fun toHex :: "bytes \<Rightarrow> string" where
  "toHex [] = []"
| "toHex (b # bs) = hex_digit (unat b div 16) # hex_digit (unat b mod 16) # toHex bs"

section \<open>asn1-helper.ts\<close>

text \<open>
  \<open>attributes.filter(a => a.name !== undefined && a.value !== undefined)\<close>, together with
  the two non-null assertions \<open>attribute.name!\<close> and \<open>attribute.value!\<close> of the mapping
  that follows: an attribute passes with its name, value and value type when it has both
  a name and a value.
\<close>

definition present :: "attribute \<Rightarrow> (string \<times> bytes \<times> nat) option" where
  "present a =
     (case attr_name a of
        None \<Rightarrow> None
      | Some n \<Rightarrow>
          (case attr_value a of
             None \<Rightarrow> None
           | Some v \<Rightarrow> Some (n, v, valueTagClass a)))"

text \<open>The body of the \<open>map\<close> callback: one RDN, or the thrown error.\<close>

definition rdn :: "lib \<Rightarrow> string \<times> bytes \<times> nat \<Rightarrow> error + asn1" where
  "rdn L a =
     (case a of (n, v, t) \<Rightarrow>
        (case oids L n of
           None \<Rightarrow> Inl (JsError ''Error'' (''Attribute with unknown oid: '' @ n))
         | Some oid \<Rightarrow>
             Inr (Asn1Nodes UNIVERSAL SET True
                   [Asn1Nodes UNIVERSAL SEQUENCE True
                     [Asn1Bytes UNIVERSAL OID False (oidToDer L oid),
                      Asn1Bytes UNIVERSAL t False v]])))"

text \<open>\<open>Array.prototype.map\<close> with a callback that may throw: the first error ends it.\<close>

fun map_throwing :: "('a \<Rightarrow> error + 'b) \<Rightarrow> 'a list \<Rightarrow> error + 'b list" where
  "map_throwing f [] = Inr []"
| "map_throwing f (x # xs) =
     (case f x of
        Inl e \<Rightarrow> Inl e
      | Inr y \<Rightarrow> (case map_throwing f xs of Inl e \<Rightarrow> Inl e | Inr ys \<Rightarrow> Inr (y # ys)))"

definition createIssuerAsn1 :: "lib \<Rightarrow> certificate \<Rightarrow> error + asn1" where
  "createIssuerAsn1 L cert =
     (case map_throwing (rdn L) (List.map_filter present (attributes (issuer cert))) of
        Inl e \<Rightarrow> Inl e
      | Inr relativeDistinguishedNames \<Rightarrow>
          Inr (Asn1Nodes UNIVERSAL SEQUENCE True relativeDistinguishedNames))"

definition createSerialNumberAsn1 :: "certificate \<Rightarrow> asn1" where
  "createSerialNumberAsn1 cert =
     Asn1Bytes UNIVERSAL INTEGER False (buffer_from_hex (serialNumber cert))"

definition createIssuerSerialAsn1 :: "lib \<Rightarrow> certificate \<Rightarrow> error + asn1" where
  "createIssuerSerialAsn1 L cert =
     (let serial = createSerialNumberAsn1 cert in
      case createIssuerAsn1 L cert of
        Inl e \<Rightarrow> Inl e
      | Inr issuerNode \<Rightarrow>
          Inr (Asn1Nodes UNIVERSAL SEQUENCE True
                [Asn1Nodes UNIVERSAL SEQUENCE True
                  [Asn1Nodes CONTEXT_SPECIFIC OCTETSTRING True [issuerNode]],
                 serial]))"

definition encodeAsn1AsBase64 :: "lib \<Rightarrow> asn1 \<Rightarrow> string" where
  "encodeAsn1AsBase64 L asn1Object = encode64 L (toDer L asn1Object)"

section \<open>certificate-helper.ts\<close>

text \<open>
  \<open>cert.isIssuer(parent)\<close> of the library, on the issuer name \<open>i\<close> of \<open>cert\<close> and the
  subject name \<open>s\<close> of \<open>parent\<close>: when both names have a (non-empty) hash, as the names
  of parsed certificates do, the result is the equality of the two hashes; otherwise
  the names must have as many attributes, equal one by one on type and value.
\<close>

definition has_hash :: "distinguished_name \<Rightarrow> bool" where
  "has_hash n = (case hash n of None \<Rightarrow> False | Some h \<Rightarrow> h \<noteq> [])"

definition isIssuer :: "certificate \<Rightarrow> certificate \<Rightarrow> bool" where
  "isIssuer cert parent =
     (let i = issuer cert; s = subject parent
      in if has_hash i \<and> has_hash s then hash i = hash s
         else map (\<lambda>a. (attr_type a, attr_value a)) (attributes i)
              = map (\<lambda>a. (attr_type a, attr_value a)) (attributes s))"

text \<open>The comparator given to \<open>sort\<close> in \<open>parsePfxBytes\<close>.\<close>

definition compareCertificates :: "certificate \<Rightarrow> certificate \<Rightarrow> int" where
  "compareCertificates certA certB =
     (if isIssuer certB certA then 1
      else if isIssuer certA certB then -1
      else 0)"

text \<open>
  \<open>Array.prototype.sort(comparefn)\<close> of the runtime (Node.js, whose engine sorts with
  TimSort), for an array of fewer than 64 elements, where the minimum run length is the
  length of the array and no runs are merged:
  \<^item> the run at the start of the array is found: the second element is compared with the
    first (\<open>comparefn(a[1], a[0])\<close>); a negative result starts a strictly descending
    run, which goes on while \<open>comparefn(a[k], a[k - 1]) < 0\<close> and is then reversed; any
    other result starts an ascending run, which goes on while
    \<open>comparefn(a[k], a[k - 1]) \<ge> 0\<close>;
  \<^item> each remaining element, as pivot, is inserted into the sorted part before it at the
    position that a binary search gives: with \<open>left = 0\<close> and \<open>right\<close> the length of the
    sorted part, while \<open>left < right\<close> the middle \<open>left + ((right - left) >> 1)\<close> is
    tried, and \<open>comparefn(pivot, a[mid]) < 0\<close> moves \<open>right\<close> to it, any other result
    moves \<open>left\<close> past it.
  An array of fewer than two elements is returned as it is. For 64 elements and more
  the runtime also merges runs, which is left out here; with a comparator that is a
  consistent ordering the result is the same.
\<close>

fun run_extend ::
    "('a \<Rightarrow> 'a \<Rightarrow> int) \<Rightarrow> bool \<Rightarrow> 'a \<Rightarrow> 'a list \<Rightarrow> 'a list \<times> 'a list" where
  "run_extend cmp descending previous [] = ([], [])"
| "run_extend cmp descending previous (current # rest) =
     (let order = cmp current previous
      in if (if descending then order \<ge> 0 else order < 0) then ([], current # rest)
         else (case run_extend cmp descending current rest of
                 (run, others) \<Rightarrow> (current # run, others)))"

fun count_and_make_run :: "('a \<Rightarrow> 'a \<Rightarrow> int) \<Rightarrow> 'a list \<Rightarrow> 'a list \<times> 'a list" where
  "count_and_make_run cmp [] = ([], [])"
| "count_and_make_run cmp [x] = ([x], [])"
| "count_and_make_run cmp (elementHigh # elementLow # rest) =
     (let descending = (cmp elementLow elementHigh < 0)
      in case run_extend cmp descending elementLow rest of
           (run, others) \<Rightarrow>
             (if descending then rev (elementHigh # elementLow # run)
              else elementHigh # elementLow # run,
              others))"

function binary_search ::
    "('a \<Rightarrow> 'a \<Rightarrow> int) \<Rightarrow> 'a \<Rightarrow> 'a list \<Rightarrow> nat \<Rightarrow> nat \<Rightarrow> nat" where
  "binary_search cmp pivot a left right =
     (if left < right
      then (if cmp pivot (a ! (left + (right - left) div 2)) < 0
            then binary_search cmp pivot a left (left + (right - left) div 2)
            else binary_search cmp pivot a (left + (right - left) div 2 + 1) right)
      else left)"
  by pat_completeness auto
termination
  by (relation "measure (\<lambda>(cmp, pivot, a, left, right). right - left)") auto

declare binary_search.simps [simp del]

primrec binary_insertion_sort :: "('a \<Rightarrow> 'a \<Rightarrow> int) \<Rightarrow> 'a list \<Rightarrow> 'a list \<Rightarrow> 'a list" where
  "binary_insertion_sort cmp front [] = front"
| "binary_insertion_sort cmp front (pivot # rest) =
     (let left = binary_search cmp pivot front 0 (length front)
      in binary_insertion_sort cmp (take left front @ pivot # drop left front) rest)"

definition array_sort :: "('a \<Rightarrow> 'a \<Rightarrow> int) \<Rightarrow> 'a list \<Rightarrow> 'a list" where
  "array_sort cmp xs =
     (if length xs < 2 then xs
      else case count_and_make_run cmp xs of
             (run, others) \<Rightarrow> binary_insertion_sort cmp run others)"

text \<open>
  A safe bag of the container (\<open>forge.pkcs12.Bag\<close>) with its optional certificate and
  key, and the decrypted container as far as the sources look into it: for a bag type,
  the entry of the object that the library's \<open>getBags({bagType})\<close> returns.
\<close>

record 'k bag =
  bag_cert :: "certificate option"
  bag_key :: "'k option"

type_synonym 'k pkcs12 = "(string \<times> 'k bag list) list"

definition certBag :: string where
  "certBag = ''1.2.840.113549.1.12.10.1.3''"

definition pkcs8ShroudedKeyBag :: string where
  "pkcs8ShroudedKeyBag = ''1.2.840.113549.1.12.10.1.2''"

definition getBags :: "'k pkcs12 \<Rightarrow> string \<Rightarrow> 'k bag list" where
  "getBags pkcs12 bagType =
     (case map_of pkcs12 bagType of None \<Rightarrow> [] | Some bags \<Rightarrow> bags)"

text \<open>
  The library calls around the key are parameters:
  \<^item> \<open>pkcs12FromDer\<close>: \<open>forge.asn1.fromDer\<close> followed by \<open>forge.pkcs12.pkcs12FromAsn1\<close> with
    the password; it throws on a malformed container or a wrong password;
  \<^item> \<open>toPkcs8Pem\<close>: \<open>forge.pki.privateKeyToPem\<close> on the key of the bag (which may be
    \<open>undefined\<close>) and the conversion from PKCS#1 to PKCS#8 by \<open>NodeRSA\<close>;
  \<^item> \<open>importPKCS8\<close>: \<open>jose.importPKCS8(pem, "RS256")\<close>.
\<close>

record ('k, 'j) keylib =
  pkcs12FromDer :: "bytes \<Rightarrow> string \<Rightarrow> error + 'k pkcs12"
  toPkcs8Pem :: "'k option \<Rightarrow> error + string"
  importPKCS8 :: "string \<Rightarrow> error + 'j"

definition getPkcs8PrivateKeyFromPkcs12 ::
    "('k, 'j) keylib \<Rightarrow> 'k pkcs12 \<Rightarrow> error + string" where
  "getPkcs8PrivateKeyFromPkcs12 K pkcs12 =
     (case getBags pkcs12 pkcs8ShroudedKeyBag of
        [] \<Rightarrow> Inl (TypeError ''Cannot read properties of undefined (reading 'key')'')
      | privateKeyBag # _ \<Rightarrow> toPkcs8Pem K (bag_key privateKeyBag))"

record 'j ParsePfxResult =
  certificateChain :: "certificate list"
  signingCertificate :: "certificate option"
  signingCertificatePrivateKey :: 'j

text \<open>The chain of \<open>parsePfxBytes\<close>: the certificates of the bags that have one, sorted.\<close>

definition chainOf :: "'k pkcs12 \<Rightarrow> certificate list" where
  "chainOf pkcs12 =
     array_sort compareCertificates (List.map_filter bag_cert (getBags pkcs12 certBag))"

text \<open>\<open>certificateChain.find(cert => !certificateChain.some(c => c.isIssuer(cert)))\<close>\<close>

definition findSigningCertificate :: "certificate list \<Rightarrow> certificate option" where
  "findSigningCertificate chain =
     List.find (\<lambda>cert. \<not> list_ex (\<lambda>c. isIssuer c cert) chain) chain"

definition parsePfxBytes ::
    "('k, 'j) keylib \<Rightarrow> bytes \<Rightarrow> string \<Rightarrow> error + 'j ParsePfxResult" where
  "parsePfxBytes K pfxFile pfxPassword =
     (case pkcs12FromDer K pfxFile pfxPassword of
        Inl e \<Rightarrow> Inl e
      | Inr pkcs12 \<Rightarrow>
          (let chain = chainOf pkcs12;
               certificate = findSigningCertificate chain
           in case getPkcs8PrivateKeyFromPkcs12 K pkcs12 of
                Inl e \<Rightarrow> Inl e
              | Inr privateKeyStr \<Rightarrow>
                  (case importPKCS8 K privateKeyStr of
                     Inl e \<Rightarrow> Inl e
                   | Inr privateKey \<Rightarrow>
                       Inr \<lparr>certificateChain = chain,
                            signingCertificate = certificate,
                            signingCertificatePrivateKey = privateKey\<rparr>)))"

text \<open>
  \<open>String.prototype.split(separator)\<close> for a non-empty separator: the pieces between the
  occurrences of the separator, found from left to right. The piece being read is kept
  reversed.
\<close>

function split_from :: "string \<Rightarrow> string \<Rightarrow> string \<Rightarrow> string list" where
  "split_from sep piece [] = [rev piece]"
| "split_from sep piece (c # cs) =
     (if sep \<noteq> [] \<and> take (length sep) (c # cs) = sep
      then rev piece # split_from sep [] (drop (length sep - 1) cs)
      else split_from sep (c # piece) cs)"
  by pat_completeness auto
termination
  by (relation "measure (\<lambda>(sep, piece, s). length s)") auto

definition js_split :: "string \<Rightarrow> string \<Rightarrow> string list" where
  "js_split s sep = split_from sep [] s"

definition startsWith :: "string \<Rightarrow> string \<Rightarrow> bool" where
  "startsWith s p = (take (length p) s = p)"

definition CRLF :: string where
  "CRLF = [CHR 0x0D, CHR 0x0A]"

definition getCertificateDer :: "lib \<Rightarrow> certificate \<Rightarrow> string" where
  "getCertificateDer L cert =
     concat (filter (\<lambda>line. \<not> startsWith line ''-----'')
               (js_split (certificateToPem L cert) CRLF))"

definition getCertificateThumbprint :: "lib \<Rightarrow> certificate \<Rightarrow> string" where
  "getCertificateThumbprint L cert =
     toHex (sha256 L (toDer L (certificateToAsn1 L cert)))"

section \<open>app.ts\<close>

text \<open>
  \<open>buffer.toString("base64url")\<close> of the runtime: base64 with the URL-safe alphabet and
  without padding.
\<close>

definition url_alphabet :: string where
  "url_alphabet = ''ABCDEFGHIJKLMNOPQRSTUVWXYZabcdefghijklmnopqrstuvwxyz0123456789-_''"

definition sextet :: "nat \<Rightarrow> char" where
  "sextet i = url_alphabet ! i"

fun base64url :: "bytes \<Rightarrow> string" where
  "base64url [] = []"
| "base64url [a] =
     (let n = unat a in [sextet (n div 4), sextet (n mod 4 * 16)])"
| "base64url [a, b] =
     (let n = unat a * 256 + unat b
      in [sextet (n div 1024), sextet (n div 16 mod 64), sextet (n mod 16 * 4)])"
| "base64url (a # b # c # rest) =
     (let n = unat a * 65536 + unat b * 256 + unat c
      in [sextet (n div 262144), sextet (n div 4096 mod 64),
          sextet (n div 64 mod 64), sextet (n mod 64)] @ base64url rest)"

text \<open>
  \<open>Date.prototype.toISOString\<close> of the runtime, on the time value of a date
  (milliseconds since 1970-01-01T00:00:00Z): \<open>YYYY-MM-DDTHH:mm:ss.sssZ\<close>, the year with
  a sign and six digits outside 0 to 9999.
\<close>

definition digit :: "nat \<Rightarrow> char" where
  "digit d = ''0123456789'' ! d"

fun pad :: "nat \<Rightarrow> nat \<Rightarrow> string" where
  "pad 0 k = []"
| "pad (Suc w) k = pad w (k div 10) @ [digit (k mod 10)]"

text \<open>Year, month and day of a day number (days since 1970-01-01), proleptic Gregorian.\<close>

definition civil_from_days :: "int \<Rightarrow> int \<times> nat \<times> nat" where
  "civil_from_days days =
     (let z = days + 719468;
          era = z div 146097;
          doe = z mod 146097;
          yoe = (doe - doe div 1460 + doe div 36524 - doe div 146096) div 365;
          doy = doe - (365 * yoe + yoe div 4 - yoe div 100);
          mp = (5 * doy + 2) div 153;
          d = doy - (153 * mp + 2) div 5 + 1;
          m = (if mp < 10 then mp + 3 else mp - 9);
          y = yoe + era * 400 + (if m \<le> 2 then 1 else 0)
      in (y, nat m, nat d))"

definition year_text :: "int \<Rightarrow> string" where
  "year_text y =
     (if 0 \<le> y \<and> y \<le> 9999 then pad 4 (nat y)
      else (if y < 0 then ''-'' else ''+'') @ pad 6 (nat \<bar>y\<bar>))"

definition date_time_text :: "int \<Rightarrow> string" where
  "date_time_text t =
     (let msInDay = nat (t mod 86400000)
      in case civil_from_days (t div 86400000) of (y, m, d) \<Rightarrow>
           year_text y @ ''-'' @ pad 2 m @ ''-'' @ pad 2 d @ ''T''
           @ pad 2 (msInDay div 3600000) @ '':''
           @ pad 2 (msInDay div 60000 mod 60) @ '':''
           @ pad 2 (msInDay div 1000 mod 60))"

definition toISOString :: "int \<Rightarrow> string" where
  "toISOString t = date_time_text t @ ''.'' @ pad 3 (nat (t mod 1000)) @ ''Z''"

text \<open>\<open>new Date().toISOString().split(".")[0] + "Z"\<close>, \<open>now\<close> being the current time.\<close>

definition sigT :: "int \<Rightarrow> string" where
  "sigT now =
     (case js_split (toISOString now) ''.'' of
        [] \<Rightarrow> ''undefined''
      | first # _ \<Rightarrow> first) @ ''Z''"

text \<open>
  The object given to \<open>setProtectedHeader\<close> in \<open>main\<close>, with its keys in the order of the
  source. A header value is a string or an array of strings.
\<close>

datatype jvalue = JString string | JArray "string list"

type_synonym header = "(string \<times> jvalue) list"

definition x5tS256 :: "lib \<Rightarrow> certificate \<Rightarrow> string" where
  "x5tS256 L cert = base64url (buffer_from_hex (getCertificateThumbprint L cert))"

definition protectedHeader :: "lib \<Rightarrow> 'j ParsePfxResult \<Rightarrow> int \<Rightarrow> error + header" where
  "protectedHeader L parsedPfx now =
     (case signingCertificate parsedPfx of
        None \<Rightarrow>
          Inl (TypeError ''Cannot read properties of undefined (reading 'serialNumber')'')
      | Some cert \<Rightarrow>
          (case createIssuerSerialAsn1 L cert of
             Inl e \<Rightarrow> Inl e
           | Inr keyIdAsn1 \<Rightarrow>
               (let keyIdBase64 = encodeAsn1AsBase64 L keyIdAsn1;
                    certificateChainDerEncoded =
                      map (getCertificateDer L) (certificateChain parsedPfx)
                in Inr [(''alg'', JString ''RS256''),
                        (''cty'', JString ''json''),
                        (''typ'', JString ''jose+json''),
                        (''kid'', JString keyIdBase64),
                        (''x5t#S256'', JString (x5tS256 L cert)),
                        (''x5c'', JArray certificateChainDerEncoded),
                        (''sigT'', JString (sigT now)),
                        (''crit'', JArray [''sigT''])])))"

text \<open>
  The flow of \<open>main\<close> from the PFX bytes to the protected header: the container is parsed,
  then the header is assembled from the result.
\<close>

definition mainProtectedHeader ::
    "('k, 'j) keylib \<Rightarrow> lib \<Rightarrow> bytes \<Rightarrow> string \<Rightarrow> int \<Rightarrow> error + header" where
  "mainProtectedHeader K L certificateBytes certificatePassword now =
     (case parsePfxBytes K certificateBytes certificatePassword of
        Inl e \<Rightarrow> Inl e
      | Inr parsedPfx \<Rightarrow> protectedHeader L parsedPfx now)"

section \<open>Notions of the specification and sample inputs\<close>

text \<open>
  The minimal two's-complement encoding of an ASN.1 INTEGER: at least one byte, and no
  leading \<open>00\<close> (or \<open>ff\<close>) byte that the sign bit of the next byte makes redundant.
\<close>

definition minimal_integer_encoding :: "bytes \<Rightarrow> bool" where
  "minimal_integer_encoding bs =
     (case bs of
        [] \<Rightarrow> False
      | [b] \<Rightarrow> True
      | a # b # _ \<Rightarrow> \<not> (a = 0 \<and> b < 128) \<and> \<not> (a = 255 \<and> 128 \<le> b))"

text \<open>A certificate with a given serial number and nothing else.\<close>

definition cert_serial :: "string \<Rightarrow> certificate" where
  "cert_serial s =
     \<lparr>subject = \<lparr>attributes = [], hash = None\<rparr>,
      issuer = \<lparr>attributes = [], hash = None\<rparr>, serialNumber = s, cert_body = []\<rparr>"

text \<open>
  A registry with two attribute names, a trivial rendering of an OID as bytes, and issuer
  attributes: a common name, a country, an attribute that has a value and an OID
  but no name (its OID is not registered), and the same attribute under a name that is
  not registered.
\<close>

definition sample_oids :: "string \<Rightarrow> string option" where
  "sample_oids n =
     (if n = ''commonName'' then Some ''2.5.4.3''
      else if n = ''countryName'' then Some ''2.5.4.6''
      else None)"

definition sample_lib :: lib where
  "sample_lib =
     \<lparr>oids = sample_oids,
      oidToDer = map (of_nat \<circ> of_char),
      toDer = (\<lambda>node. of_nat (tagClass node + tagType node) # []),
      encode64 = toHex,
      certificateToAsn1 = (\<lambda>cert. Asn1Bytes 0 16 True (cert_body cert)),
      certificateToPem = (\<lambda>cert. ''-----BEGIN CERTIFICATE-----'' @ CRLF
                            @ toHex (cert_body cert) @ CRLF
                            @ ''-----END CERTIFICATE-----'' @ CRLF),
      sha256 = take 32\<rparr>"

definition attr_cn :: attribute where
  "attr_cn = \<lparr>attr_name = Some ''commonName'', attr_type = ''2.5.4.3'',
              attr_value = Some [82, 111, 111, 116], valueTagClass = 19\<rparr>"

definition attr_c :: attribute where
  "attr_c = \<lparr>attr_name = Some ''countryName'', attr_type = ''2.5.4.6'',
             attr_value = Some [78, 76], valueTagClass = 19\<rparr>"

definition attr_unnamed :: attribute where
  "attr_unnamed = \<lparr>attr_name = None, attr_type = ''1.2.3.4'',
                   attr_value = Some [88], valueTagClass = 12\<rparr>"

definition cert_unnamed :: certificate where
  "cert_unnamed =
     \<lparr>subject = \<lparr>attributes = [], hash = None\<rparr>,
      issuer = \<lparr>attributes = [attr_unnamed], hash = Some ''5a''\<rparr>,
      serialNumber = ''01'', cert_body = []\<rparr>"

definition attr_misnamed :: attribute where
  "attr_misnamed = \<lparr>attr_name = Some ''foo'', attr_type = ''1.2.3.4'',
                    attr_value = Some [88], valueTagClass = 12\<rparr>"

definition cert_misnamed :: certificate where
  "cert_misnamed =
     \<lparr>subject = \<lparr>attributes = [], hash = None\<rparr>,
      issuer = \<lparr>attributes = [attr_misnamed], hash = Some ''5a''\<rparr>,
      serialNumber = ''01'', cert_body = []\<rparr>"

definition cert_mixed :: certificate where
  "cert_mixed =
     \<lparr>subject = \<lparr>attributes = [], hash = None\<rparr>,
      issuer = \<lparr>attributes = [attr_cn, attr_unnamed, attr_c], hash = Some ''6b''\<rparr>,
      serialNumber = ''0a'', cert_body = [1]\<rparr>"

text \<open>
  Three parsed certificates that form a strict issuance chain: a self-signed root, an
  intermediate issued by the root and a leaf issued by the intermediate; and a second
  leaf issued by the root directly. Equal names have equal hashes, different names
  different ones.
\<close>

definition cn :: "bytes \<Rightarrow> attribute" where
  "cn v = \<lparr>attr_name = Some ''commonName'', attr_type = ''2.5.4.3'',
           attr_value = Some v, valueTagClass = 19\<rparr>"

definition name_root :: distinguished_name where
  "name_root = \<lparr>attributes = [cn [82]], hash = Some ''a1''\<rparr>"

definition name_inter :: distinguished_name where
  "name_inter = \<lparr>attributes = [cn [73]], hash = Some ''b2''\<rparr>"

definition name_leaf :: distinguished_name where
  "name_leaf = \<lparr>attributes = [cn [76]], hash = Some ''c3''\<rparr>"

definition cert_root :: certificate where
  "cert_root = \<lparr>subject = name_root, issuer = name_root, serialNumber = ''01'',
                cert_body = [1]\<rparr>"

definition cert_inter :: certificate where
  "cert_inter = \<lparr>subject = name_inter, issuer = name_root, serialNumber = ''02'',
                 cert_body = [2]\<rparr>"

definition cert_leaf :: certificate where
  "cert_leaf = \<lparr>subject = name_leaf, issuer = name_inter, serialNumber = ''03'',
                cert_body = [3]\<rparr>"

definition cert_leaf2 :: certificate where
  "cert_leaf2 = \<lparr>subject = name_leaf, issuer = name_root, serialNumber = ''04'',
                 cert_body = [4]\<rparr>"

text \<open>
  A root certificate with the same common name as \<open>cert_root\<close>, written as another
  string type (UTF8String, 12, where the issuer name of \<open>cert_leaf2\<close> has
  PrintableString, 19): the DER encodings of the two names differ, and so do their
  hashes.
\<close>

definition name_root_utf8 :: distinguished_name where
  "name_root_utf8 = \<lparr>attributes = [(cn [82])\<lparr>valueTagClass := 12\<rparr>], hash = Some ''d4''\<rparr>"

definition cert_root_utf8 :: certificate where
  "cert_root_utf8 = \<lparr>subject = name_root_utf8, issuer = name_root_utf8,
                     serialNumber = ''05'', cert_body = [5]\<rparr>"

text \<open>
  Library functions around the key for the samples: the container \<open>p\<close> is what the bytes
  decode to under the password \<open>secret\<close>; a key is its own PEM text.
\<close>

definition sample_keylib :: "string pkcs12 \<Rightarrow> (string, string) keylib" where
  "sample_keylib p =
     \<lparr>pkcs12FromDer = (\<lambda>pfx pw. if pw = ''secret'' then Inr p
                                 else Inl (JsError ''Error'' ''Invalid password?'')),
      toPkcs8Pem = (\<lambda>k. case k of None \<Rightarrow> Inl (TypeError ''key is undefined'')
                                 | Some pem \<Rightarrow> Inr pem),
      importPKCS8 = Inr\<rparr>"

definition cert_bag :: "certificate \<Rightarrow> string bag" where
  "cert_bag c = \<lparr>bag_cert = Some c, bag_key = None\<rparr>"

definition key_bag :: "string bag" where
  "key_bag = \<lparr>bag_cert = None, bag_key = Some ''key''\<rparr>"

text \<open>Containers: without a key bag, without a certificate bag, with three and two certificates.\<close>

definition pfx_no_key :: "string pkcs12" where
  "pfx_no_key = [(certBag, [cert_bag cert_root]), (pkcs8ShroudedKeyBag, [])]"

definition pfx_no_certs :: "string pkcs12" where
  "pfx_no_certs = [(certBag, []), (pkcs8ShroudedKeyBag, [key_bag])]"

definition pfx_three :: "string pkcs12" where
  "pfx_three =
     [(certBag, [cert_bag cert_root, cert_bag cert_leaf, cert_bag cert_inter]),
      (pkcs8ShroudedKeyBag, [key_bag])]"

definition pfx_two :: "string pkcs12" where
  "pfx_two =
     [(certBag, [cert_bag cert_root, cert_bag cert_leaf2]),
      (pkcs8ShroudedKeyBag, [key_bag])]"

text \<open>A container whose only certificate is the self-signed root, with its key.\<close>

definition pfx_self_signed :: "string pkcs12" where
  "pfx_self_signed = [(certBag, [cert_bag cert_root]), (pkcs8ShroudedKeyBag, [key_bag])]"

section \<open>Properties\<close>

subsection \<open>Hexadecimal text\<close>

lemma unhex_hex_digit_all: "list_all (\<lambda>n. unhex (hex_digit n) = Some n) [0..<16]"
  by code_simp

lemma unhex_hex_digit: "n < 16 \<Longrightarrow> unhex (hex_digit n) = Some n"
  using unhex_hex_digit_all by (simp add: list_all_iff)

text \<open>Decoding the hexadecimal text of a buffer gives the buffer back.\<close>

lemma buffer_from_hex_toHex: "buffer_from_hex (toHex bs) = bs"
proof (induction bs)
  case Nil
  show ?case by simp
next
  case (Cons b bs)
  have hi: "unat b div 16 < 16"
    using unsigned_less [of b, where ?'a = nat] by (simp add: less_mult_imp_div_less)
  have lo: "unat b mod 16 < 16" by simp
  have "(of_nat (unat b div 16 * 16 + unat b mod 16) :: byte) = b"
    by simp
  with Cons hi lo show ?case
    by (simp add: unhex_hex_digit del: of_nat_add of_nat_mult)
qed

subsection \<open>Serial number\<close>

text \<open>
  C2 (as stated, refuted): the bytes of the INTEGER node are not always the minimal
  two's-complement encoding. For the serial number text \<open>000001\<close> the node holds the three
  bytes \<open>00 00 01\<close>, with leading zero bytes that the sign bit does not require.
\<close>

theorem serial_number_not_minimal:
  "content (createSerialNumberAsn1 (cert_serial ''000001'')) = [0, 0, 1]
   \<and> \<not> minimal_integer_encoding (content (createSerialNumberAsn1 (cert_serial ''000001'')))"
  by (simp add: createSerialNumberAsn1_def cert_serial_def unhex_def
      minimal_integer_encoding_def)

text \<open>
  C2 (amended): the INTEGER node holds exactly the bytes that the hexadecimal text of the
  serial number denotes, unchanged. When the certificate carries the text of the bytes
  \<open>bs\<close>, the node is a primitive universal INTEGER with content \<open>bs\<close>; so the content is a
  minimal encoding exactly when \<open>bs\<close> is one.
\<close>

theorem serial_number_bytes_verbatim:
  assumes "serialNumber cert = toHex bs"
  shows "createSerialNumberAsn1 cert = Asn1Bytes UNIVERSAL INTEGER False bs
         \<and> minimal_integer_encoding (content (createSerialNumberAsn1 cert))
           = minimal_integer_encoding bs"
  using assms by (simp add: createSerialNumberAsn1_def buffer_from_hex_toHex)

theorem serial_number_bytes_verbatim_witness:
  "serialNumber (cert_serial ''009f'') = toHex [0, 159]
   \<and> createSerialNumberAsn1 (cert_serial ''009f'') = Asn1Bytes UNIVERSAL INTEGER False [0, 159]
   \<and> minimal_integer_encoding (content (createSerialNumberAsn1 (cert_serial ''009f'')))"
  using serial_number_bytes_verbatim [of "cert_serial ''009f''" "[0, 159]"]
  by (simp add: cert_serial_def hex_digit_def minimal_integer_encoding_def)

subsection \<open>Issuer name\<close>

lemma rdns_of_present:
  "map_throwing (rdn L) (List.map_filter present attrs) = Inr rdns \<Longrightarrow>
   list_all2
     (\<lambda>a r. \<exists>n v oid. attr_name a = Some n \<and> attr_value a = Some v
          \<and> oids L n = Some oid
          \<and> r = Asn1Nodes UNIVERSAL SET True
                [Asn1Nodes UNIVERSAL SEQUENCE True
                  [Asn1Bytes UNIVERSAL OID False (oidToDer L oid),
                   Asn1Bytes UNIVERSAL (valueTagClass a) False v]])
     (filter (\<lambda>a. attr_name a \<noteq> None \<and> attr_value a \<noteq> None) attrs) rdns"
proof (induction attrs arbitrary: rdns)
  case Nil
  then show ?case by (simp add: List.map_filter_simps)
next
  case (Cons a attrs)
  show ?case
  proof (cases "present a")
    case None
    then have "\<not> (attr_name a \<noteq> None \<and> attr_value a \<noteq> None)"
      by (auto simp: present_def split: option.splits)
    with Cons None show ?thesis by (auto simp: List.map_filter_simps)
  next
    case (Some p)
    then obtain n v where nv: "attr_name a = Some n" "attr_value a = Some v"
      and p: "p = (n, v, valueTagClass a)"
      by (auto simp: present_def split: option.splits)
    from Cons.prems Some obtain r rs where
      r: "rdn L p = Inr r" and rs: "map_throwing (rdn L) (List.map_filter present attrs) = Inr rs"
      and eq: "rdns = r # rs"
      by (auto simp: List.map_filter_simps split: sum.splits)
    from r p obtain oid where "oids L n = Some oid"
      and "r = Asn1Nodes UNIVERSAL SET True
                [Asn1Nodes UNIVERSAL SEQUENCE True
                  [Asn1Bytes UNIVERSAL OID False (oidToDer L oid),
                   Asn1Bytes UNIVERSAL (valueTagClass a) False v]]"
      by (auto simp: rdn_def split: option.splits)
    with Cons.IH [OF rs] nv eq show ?thesis by simp
  qed
qed

text \<open>
  C5 (the code at a failing input): an issuer attribute of a parsed certificate whose OID
  the registry of the library does not know has its OID and its value but no name. For a
  certificate whose only issuer attribute is such an attribute, the issuer tree is built
  without an error and has no RDN: the attribute, which has a value, is dropped. The same
  attribute under a name that the registry does not know reaches the lookup and makes
  the construction fail with \<open>Attribute with unknown oid\<close>.
\<close>

theorem unnamed_attribute_dropped:
  "attributes (issuer cert_unnamed) = [attr_unnamed]
   \<and> attr_name attr_unnamed = None
   \<and> attr_type attr_unnamed = ''1.2.3.4''
   \<and> attr_value attr_unnamed = Some [88]
   \<and> createIssuerAsn1 sample_lib cert_unnamed = Inr (Asn1Nodes UNIVERSAL SEQUENCE True [])
   \<and> createIssuerAsn1 sample_lib cert_misnamed
       = Inl (JsError ''Error'' ''Attribute with unknown oid: foo'')"
  by (simp add: createIssuerAsn1_def cert_unnamed_def attr_unnamed_def cert_misnamed_def
      attr_misnamed_def present_def List.map_filter_simps rdn_def sample_lib_def
      sample_oids_def)

text \<open>
  What the construction keeps: when the issuer tree is built, its RDNs are, in order, the
  issuer attributes that have both a name and a value, each one a SET of one SEQUENCE of
  the DER of the OID that the registry gives for the name of the attribute and the value
  bytes of the attribute, typed by its \<open>valueTagClass\<close>.
\<close>

lemma issuer_attributes_kept:
  assumes "createIssuerAsn1 L cert = Inr node"
  shows "\<exists>rdns. node = Asn1Nodes UNIVERSAL SEQUENCE True rdns
           \<and> list_all2
               (\<lambda>a r. \<exists>n v oid. attr_name a = Some n \<and> attr_value a = Some v
                    \<and> oids L n = Some oid
                    \<and> r = Asn1Nodes UNIVERSAL SET True
                          [Asn1Nodes UNIVERSAL SEQUENCE True
                            [Asn1Bytes UNIVERSAL OID False (oidToDer L oid),
                             Asn1Bytes UNIVERSAL (valueTagClass a) False v]])
               (filter (\<lambda>a. attr_name a \<noteq> None \<and> attr_value a \<noteq> None)
                  (attributes (issuer cert)))
               rdns"
proof -
  from assms obtain rdns where
    m: "map_throwing (rdn L) (List.map_filter present (attributes (issuer cert))) = Inr rdns"
    and n: "node = Asn1Nodes UNIVERSAL SEQUENCE True rdns"
    by (auto simp: createIssuerAsn1_def split: sum.splits)
  from rdns_of_present [OF m] n show ?thesis by blast
qed

subsection \<open>IssuerSerial\<close>

lemma list_all2_right:
  "list_all2 P xs ys \<Longrightarrow> (\<And>x y. P x y \<Longrightarrow> Q y) \<Longrightarrow> list_all Q ys"
  by (induction rule: list_all2_induct) auto

text \<open>
  C6: the IssuerSerial node is built exactly when the issuer node is, and then it is a
  constructed universal SEQUENCE (tag 16) of two elements: a constructed universal
  SEQUENCE holding one constructed context-specific node (class 128) with tag number 4
  around the issuer node, and the primitive universal INTEGER (tag 2) of the serial
  number. The issuer node is a constructed SEQUENCE of RDNs, each a SET (tag 17) of one
  SEQUENCE of an OID (tag 6) and a value. When the issuer cannot be built, its error is
  the result.
\<close>

theorem issuer_serial_shape:
  "case createIssuerAsn1 L cert of
     Inl e \<Rightarrow> createIssuerSerialAsn1 L cert = Inl e
   | Inr issuerNode \<Rightarrow>
       createIssuerSerialAsn1 L cert =
         Inr (Asn1Nodes 0 16 True
               [Asn1Nodes 0 16 True [Asn1Nodes 128 4 True [issuerNode]],
                Asn1Bytes 0 2 False (buffer_from_hex (serialNumber cert))])
       \<and> (\<exists>rdns. issuerNode = Asn1Nodes 0 16 True rdns
            \<and> list_all
                (\<lambda>r. \<exists>oid t v. r = Asn1Nodes 0 17 True
                                      [Asn1Nodes 0 16 True
                                        [Asn1Bytes 0 6 False oid, Asn1Bytes 0 t False v]])
                rdns)"
proof (cases "createIssuerAsn1 L cert")
  case (Inl e)
  then show ?thesis by (simp add: createIssuerSerialAsn1_def)
next
  case (Inr issuerNode)
  then obtain rdns where
    m: "map_throwing (rdn L) (List.map_filter present (attributes (issuer cert))) = Inr rdns"
    and n: "issuerNode = Asn1Nodes UNIVERSAL SEQUENCE True rdns"
    by (auto simp: createIssuerAsn1_def split: sum.splits)
  have "list_all
          (\<lambda>r. \<exists>oid t v. r = Asn1Nodes 0 17 True
                                [Asn1Nodes 0 16 True
                                  [Asn1Bytes 0 6 False oid, Asn1Bytes 0 t False v]])
          rdns"
    by (rule list_all2_right [OF rdns_of_present [OF m]])
      (auto simp: UNIVERSAL_def SET_def SEQUENCE_def OID_def)
  with Inr n show ?thesis
    by (simp add: createIssuerSerialAsn1_def createSerialNumberAsn1_def UNIVERSAL_def
        SEQUENCE_def CONTEXT_SPECIFIC_def OCTETSTRING_def INTEGER_def)
qed

theorem issuer_serial_shape_witness:
  "createIssuerSerialAsn1 sample_lib cert_mixed =
     Inr (Asn1Nodes 0 16 True
           [Asn1Nodes 0 16 True
             [Asn1Nodes 128 4 True
               [Asn1Nodes 0 16 True
                 [Asn1Nodes 0 17 True
                   [Asn1Nodes 0 16 True
                     [Asn1Bytes 0 6 False [50, 46, 53, 46, 52, 46, 51],
                      Asn1Bytes 0 19 False [82, 111, 111, 116]]],
                  Asn1Nodes 0 17 True
                   [Asn1Nodes 0 16 True
                     [Asn1Bytes 0 6 False [50, 46, 53, 46, 52, 46, 54],
                      Asn1Bytes 0 19 False [78, 76]]]]]],
            Asn1Bytes 0 2 False [10]])"
proof -
  have c: "createIssuerAsn1 sample_lib cert_mixed =
     Inr (Asn1Nodes 0 16 True
           [Asn1Nodes 0 17 True
             [Asn1Nodes 0 16 True
               [Asn1Bytes 0 6 False [50, 46, 53, 46, 52, 46, 51],
                Asn1Bytes 0 19 False [82, 111, 111, 116]]],
            Asn1Nodes 0 17 True
             [Asn1Nodes 0 16 True
               [Asn1Bytes 0 6 False [50, 46, 53, 46, 52, 46, 54],
                Asn1Bytes 0 19 False [78, 76]]]])"
    by (simp add: createIssuerAsn1_def cert_mixed_def attr_cn_def attr_c_def
        attr_unnamed_def present_def List.map_filter_simps rdn_def sample_lib_def
        sample_oids_def UNIVERSAL_def SET_def SEQUENCE_def OID_def)
  have s: "buffer_from_hex (serialNumber cert_mixed) = [10]"
    by (simp add: cert_mixed_def unhex_def)
  from issuer_serial_shape [of sample_lib cert_mixed] show ?thesis
    unfolding c s by simp
qed

text \<open>
  The IssuerSerial node depends on the certificate only through its issuer attributes and
  its serial number.
\<close>

lemma issuer_serial_reads_issuer_and_serial:
  assumes "attributes (issuer c1) = attributes (issuer c2)"
    and "serialNumber c1 = serialNumber c2"
  shows "createIssuerSerialAsn1 L c1 = createIssuerSerialAsn1 L c2"
  using assms
  by (simp add: createIssuerSerialAsn1_def createIssuerAsn1_def createSerialNumberAsn1_def)

subsection \<open>Thumbprint\<close>

lemma sextet_in_alphabet: "i < 64 \<Longrightarrow> sextet i \<in> set url_alphabet"
  unfolding sextet_def by (rule nth_mem) (simp add: url_alphabet_def)

lemma base64url_alphabet: "set (base64url bs) \<subseteq> set url_alphabet"
proof (induction bs rule: base64url.induct)
  case 1
  show ?case by simp
next
  case (2 a)
  have "unat a < 256" using unsigned_less [of a, where ?'a = nat] by simp
  then have "unat a div 4 < 64" "unat a mod 4 * 16 < 64" by arith+
  then show ?case by (simp add: Let_def sextet_in_alphabet)
next
  case (3 a b)
  have "unat a < 256" "unat b < 256"
    using unsigned_less [of a, where ?'a = nat] unsigned_less [of b, where ?'a = nat]
    by simp_all
  then have "(unat a * 256 + unat b) div 1024 < 64"
    "(unat a * 256 + unat b) div 16 mod 64 < 64"
    "(unat a * 256 + unat b) mod 16 * 4 < 64" by arith+
  then show ?case by (simp add: Let_def sextet_in_alphabet)
next
  case (4 a b c rest)
  have "unat a < 256" "unat b < 256" "unat c < 256"
    using unsigned_less [of a, where ?'a = nat] unsigned_less [of b, where ?'a = nat]
      unsigned_less [of c, where ?'a = nat]
    by simp_all
  then have "(unat a * 65536 + unat b * 256 + unat c) div 262144 < 64" by arith
  with 4 show ?case by (simp add: Let_def sextet_in_alphabet)
qed

lemma base64url_length: "length (base64url bs) = (4 * length bs + 2) div 3"
  by (induction bs rule: base64url.induct) (simp_all add: Let_def)

text \<open>
  C7: the \<open>x5t#S256\<close> value is the URL-safe base64 text, without padding, of the SHA-256
  digest of the DER bytes of the certificate: going through the hexadecimal text of the
  digest loses nothing, every character is of the URL-safe alphabet, no \<open>=\<close> is added,
  and the length is that of unpadded base64.
\<close>

theorem x5t_is_base64url_of_digest:
  "x5tS256 L cert = base64url (sha256 L (toDer L (certificateToAsn1 L cert)))
   \<and> set (x5tS256 L cert) \<subseteq> set url_alphabet
   \<and> CHR ''='' \<notin> set (x5tS256 L cert)
   \<and> length (x5tS256 L cert)
       = (4 * length (sha256 L (toDer L (certificateToAsn1 L cert))) + 2) div 3"
proof -
  have e: "x5tS256 L cert = base64url (sha256 L (toDer L (certificateToAsn1 L cert)))"
    by (simp add: x5tS256_def getCertificateThumbprint_def buffer_from_hex_toHex)
  have "CHR ''='' \<notin> set url_alphabet" by (simp add: url_alphabet_def)
  with base64url_alphabet [of "sha256 L (toDer L (certificateToAsn1 L cert))"]
  have "CHR ''='' \<notin> set (base64url (sha256 L (toDer L (certificateToAsn1 L cert))))"
    by blast
  with e base64url_alphabet base64url_length show ?thesis by simp
qed

subsection \<open>Signing time\<close>

lemma digit_not_dot: "d < 10 \<Longrightarrow> digit d \<noteq> CHR ''.''"
proof -
  assume "d < 10"
  then have "digit d \<in> set ''0123456789''"
    unfolding digit_def by (intro nth_mem) simp
  then show ?thesis by auto
qed

lemma pad_no_dot: "CHR ''.'' \<notin> set (pad w k)"
proof (induction w arbitrary: k)
  case 0
  show ?case by simp
next
  case (Suc w)
  have "digit (k mod 10) \<noteq> CHR ''.''" by (rule digit_not_dot) simp
  with Suc show ?case by auto
qed

lemma year_text_no_dot: "CHR ''.'' \<notin> set (year_text y)"
  by (simp add: year_text_def pad_no_dot)

lemma date_time_text_no_dot: "CHR ''.'' \<notin> set (date_time_text t)"
  by (simp add: date_time_text_def Let_def year_text_no_dot pad_no_dot split: prod.splits)

lemma split_from_first:
  "c \<notin> set s \<Longrightarrow> split_from [c] piece (s @ c # rest) = (rev piece @ s) # split_from [c] [] rest"
  by (induction s arbitrary: piece) auto

lemma pad_2: "pad 2 k = [digit (k div 10 mod 10), digit (k mod 10)]"
proof -
  have "pad (Suc (Suc 0)) k = [digit (k div 10 mod 10), digit (k mod 10)]"
    by (simp only: pad.simps append.simps)
  then show ?thesis by (simp only: numeral_2_eq_2)
qed

lemma pad_3: "pad 3 k = [digit (k div 10 div 10 mod 10), digit (k div 10 mod 10), digit (k mod 10)]"
proof -
  have "pad (Suc (Suc (Suc 0))) k =
    [digit (k div 10 div 10 mod 10), digit (k div 10 mod 10), digit (k mod 10)]"
    by (simp only: pad.simps append.simps)
  then show ?thesis by (simp only: numeral_3_eq_3)
qed

lemma pad_4: "pad 4 k = [digit (k div 10 div 10 div 10 mod 10),
    digit (k div 10 div 10 mod 10), digit (k div 10 mod 10), digit (k mod 10)]"
proof -
  have n: "(4::nat) = Suc (Suc (Suc (Suc 0)))" by arith
  have "pad (Suc (Suc (Suc (Suc 0)))) k = [digit (k div 10 div 10 div 10 mod 10),
    digit (k div 10 div 10 mod 10), digit (k div 10 mod 10), digit (k mod 10)]"
    by (simp only: pad.simps append.simps)
  then show ?thesis by (simp only: n)
qed

lemma civil_sample: "civil_from_days 19783 = (2024, 3, 1)"
  by code_simp

lemma date_time_sample: "date_time_text 1709288130123 = ''2024-03-01T10:15:30''"
proof -
  have a: "(1709288130123::int) div 86400000 = 19783" by simp
  have b: "nat (1709288130123 mod 86400000) = 36930123" by simp
  have y: "year_text 2024 = ''2024''"
    by (simp add: year_text_def pad_4 digit_def)
  have h: "pad 2 (36930123 div 3600000) = ''10''" by (simp add: pad_2 digit_def)
  have m: "pad 2 (36930123 div 60000 mod 60) = ''15''" by (simp add: pad_2 digit_def)
  have s: "pad 2 (36930123 div 1000 mod 60) = ''30''" by (simp add: pad_2 digit_def)
  have mo: "pad 2 3 = ''03''" by (simp add: pad_2 digit_def)
  have da: "pad 2 1 = ''01''" by (simp add: pad_2 digit_def)
  show ?thesis
    unfolding date_time_text_def a b Let_def civil_sample
    by (simp only: prod.case y h m s mo da) simp
qed

lemma ms_sample: "pad 3 (nat (1709288130123 mod 1000)) = ''123''"
proof -
  have "nat (1709288130123 mod 1000) = 123" by simp
  then show ?thesis by (simp add: pad_3 digit_def)
qed

text \<open>
  C8: for every time value, \<open>sigT\<close> is the ISO text of the instant without its
  sub-second part: the ISO text is the date and time to the second, a dot, three digits
  of milliseconds and \<open>Z\<close>; \<open>sigT\<close> is the date and time to the second followed by \<open>Z\<close>.
  The instant 2024-03-01T10:15:30.123Z (time value 1709288130123) gives
  \<open>2024-03-01T10:15:30Z\<close>.
\<close>

theorem sigT_strips_milliseconds:
  "toISOString now = date_time_text now @ ''.'' @ pad 3 (nat (now mod 1000)) @ ''Z''
   \<and> sigT now = date_time_text now @ ''Z''
   \<and> toISOString 1709288130123 = ''2024-03-01T10:15:30.123Z''
   \<and> sigT 1709288130123 = ''2024-03-01T10:15:30Z''"
proof -
  have g: "sigT t = date_time_text t @ ''Z''" for t
    using split_from_first [OF date_time_text_no_dot [of t], of "[]" "pad 3 (nat (t mod 1000)) @ ''Z''"]
    by (simp add: sigT_def js_split_def toISOString_def)
  have i: "toISOString 1709288130123 = ''2024-03-01T10:15:30.123Z''"
    unfolding toISOString_def date_time_sample ms_sample by simp
  have s: "sigT 1709288130123 = ''2024-03-01T10:15:30Z''"
    unfolding g date_time_sample by simp
  show ?thesis
    using g [of now] i s by (simp add: toISOString_def)
qed

subsection \<open>PKCS#12 extraction\<close>

lemma bags_eval:
  "certBag \<noteq> pkcs8ShroudedKeyBag"
  by (simp add: certBag_def pkcs8ShroudedKeyBag_def)

text \<open>
  C4 (as stated, refuted): for a container that decodes and has no shrouded key bag,
  extraction fails, but the error is the \<open>TypeError\<close> of the runtime for reading the \<open>key\<close>
  of a missing bag, and no error named \<open>NoPrivateKeyError\<close>.
\<close>

theorem no_key_bag_error_is_TypeError:
  "pkcs12FromDer (sample_keylib pfx_no_key) [] ''secret'' = Inr pfx_no_key
   \<and> getBags pfx_no_key pkcs8ShroudedKeyBag = []
   \<and> parsePfxBytes (sample_keylib pfx_no_key) [] ''secret''
       = Inl (JsError ''TypeError'' ''Cannot read properties of undefined (reading 'key')'')
   \<and> (\<forall>msg. parsePfxBytes (sample_keylib pfx_no_key) [] ''secret''
         \<noteq> Inl (JsError ''NoPrivateKeyError'' msg))"
  by (simp add: parsePfxBytes_def sample_keylib_def getPkcs8PrivateKeyFromPkcs12_def
      getBags_def pfx_no_key_def bags_eval [symmetric] TypeError_def)

text \<open>
  C4 (amended): for every container that decodes and has no shrouded private-key bag,
  extraction fails with the \<open>TypeError\<close> raised by reading \<open>key\<close> of the missing first
  bag; no result (and so no partial output) is returned.
\<close>

theorem no_key_bag_fails:
  assumes "pkcs12FromDer K pfxFile pfxPassword = Inr pkcs12"
    and "getBags pkcs12 pkcs8ShroudedKeyBag = []"
  shows "parsePfxBytes K pfxFile pfxPassword
         = Inl (TypeError ''Cannot read properties of undefined (reading 'key')'')"
  using assms by (simp add: parsePfxBytes_def getPkcs8PrivateKeyFromPkcs12_def Let_def)

theorem no_key_bag_fails_witness:
  "pkcs12FromDer (sample_keylib pfx_no_key) [] ''secret'' = Inr pfx_no_key
   \<and> getBags pfx_no_key pkcs8ShroudedKeyBag = []
   \<and> parsePfxBytes (sample_keylib pfx_no_key) [] ''secret''
       = Inl (TypeError ''Cannot read properties of undefined (reading 'key')'')"
proof -
  have d: "pkcs12FromDer (sample_keylib pfx_no_key) [] ''secret'' = Inr pfx_no_key"
    by (simp add: sample_keylib_def)
  have b: "getBags pfx_no_key pkcs8ShroudedKeyBag = []"
    by (simp add: getBags_def pfx_no_key_def bags_eval [symmetric])
  from no_key_bag_fails [OF d b] d b show ?thesis by simp
qed

text \<open>
  C10: for every container that decodes and has no certificate bag (the library's lookup
  gives no entry or an empty one), the chain is empty and the selection of the signing
  certificate gives no certificate; nothing is raised there, and extraction goes on with
  the key: its result is the result of the key steps, with the empty chain and no
  signing certificate.
\<close>

theorem no_certificate_bags:
  assumes "pkcs12FromDer K pfxFile pfxPassword = Inr pkcs12"
    and "map_of pkcs12 certBag = None \<or> map_of pkcs12 certBag = Some []"
  shows "getBags pkcs12 certBag = []
         \<and> chainOf pkcs12 = []
         \<and> findSigningCertificate (chainOf pkcs12) = None
         \<and> parsePfxBytes K pfxFile pfxPassword
           = (case getPkcs8PrivateKeyFromPkcs12 K pkcs12 of
                Inl e \<Rightarrow> Inl e
              | Inr privateKeyStr \<Rightarrow>
                  (case importPKCS8 K privateKeyStr of
                     Inl e \<Rightarrow> Inl e
                   | Inr privateKey \<Rightarrow>
                       Inr \<lparr>certificateChain = [], signingCertificate = None,
                            signingCertificatePrivateKey = privateKey\<rparr>))"
proof -
  from assms(2) have b: "getBags pkcs12 certBag = []"
    by (auto simp: getBags_def)
  then have c: "chainOf pkcs12 = []"
    by (simp add: chainOf_def List.map_filter_simps array_sort_def)
  then have f: "findSigningCertificate (chainOf pkcs12) = None"
    by (simp add: findSigningCertificate_def)
  from assms(1) b c f show ?thesis
    by (simp add: parsePfxBytes_def Let_def split: sum.splits)
qed

theorem no_certificate_bags_witness:
  "pkcs12FromDer (sample_keylib pfx_no_certs) [] ''secret'' = Inr pfx_no_certs
   \<and> map_of pfx_no_certs certBag = Some []
   \<and> parsePfxBytes (sample_keylib pfx_no_certs) [] ''secret''
       = Inr \<lparr>certificateChain = [], signingCertificate = None,
              signingCertificatePrivateKey = ''key''\<rparr>"
proof -
  have d: "pkcs12FromDer (sample_keylib pfx_no_certs) [] ''secret'' = Inr pfx_no_certs"
    by (simp add: sample_keylib_def)
  have b: "map_of pfx_no_certs certBag = Some []"
    by (simp add: pfx_no_certs_def)
  have k: "getPkcs8PrivateKeyFromPkcs12 (sample_keylib pfx_no_certs) pfx_no_certs = Inr ''key''"
    by (simp add: getPkcs8PrivateKeyFromPkcs12_def getBags_def pfx_no_certs_def bags_eval
        bags_eval [symmetric] sample_keylib_def key_bag_def)
  have i: "importPKCS8 (sample_keylib pfx_no_certs) ''key'' = Inr ''key''"
    by (simp add: sample_keylib_def)
  from no_certificate_bags [OF d disjI2 [OF b]] d b show ?thesis
    by (simp add: k i)
qed

subsection \<open>Certificate chain\<close>

lemma sample_issuers:
  "isIssuer cert_leaf cert_inter" "isIssuer cert_inter cert_root" "isIssuer cert_root cert_root"
  "\<not> isIssuer cert_leaf cert_root" "\<not> isIssuer cert_leaf cert_leaf"
  "\<not> isIssuer cert_inter cert_leaf" "\<not> isIssuer cert_inter cert_inter"
  "\<not> isIssuer cert_root cert_leaf" "\<not> isIssuer cert_root cert_inter"
  "isIssuer cert_leaf2 cert_root" "\<not> isIssuer cert_leaf2 cert_leaf2"
  "\<not> isIssuer cert_root cert_leaf2"
  by (simp_all add: isIssuer_def has_hash_def cert_leaf_def cert_inter_def cert_root_def
      cert_leaf2_def name_root_def name_inter_def name_leaf_def)

lemma compare_samples:
  "compareCertificates cert_leaf cert_root = 0"
  "compareCertificates cert_root cert_leaf = 0"
  "compareCertificates cert_inter cert_leaf = 1"
  "compareCertificates cert_leaf cert_inter = - 1"
  "compareCertificates cert_root cert_inter = 1"
  "compareCertificates cert_inter cert_root = - 1"
  "compareCertificates cert_leaf2 cert_root = - 1"
  "compareCertificates cert_root cert_leaf2 = 1"
  by (simp_all add: compareCertificates_def sample_issuers)

lemma array_sort_two:
  "array_sort cmp [x, y] = (if cmp y x < 0 then [y, x] else [x, y])"
  by (simp add: array_sort_def)

text \<open>
  An array in which no element compares less than its predecessor is one ascending run,
  and the sort leaves it as it is, whatever the comparator says about elements that are
  not neighbours.
\<close>

lemma run_extend_ascending:
  "successively (\<lambda>x y. \<not> cmp y x < 0) (previous # rest) \<Longrightarrow>
   run_extend cmp False previous rest = (rest, [])"
  by (induction rest arbitrary: previous) simp_all

lemma array_sort_kept:
  assumes "successively (\<lambda>x y. \<not> cmp y x < 0) xs"
  shows "array_sort cmp xs = xs"
proof (cases xs)
  case Nil
  then show ?thesis by (simp add: array_sort_def)
next
  case (Cons x0 ys)
  show ?thesis
  proof (cases ys)
    case Nil
    with Cons show ?thesis by (simp add: array_sort_def)
  next
    case (Cons x1 rest)
    with \<open>xs = x0 # ys\<close> assms have first: "\<not> cmp x1 x0 < 0"
      and others: "successively (\<lambda>x y. \<not> cmp y x < 0) (x1 # rest)"
      by simp_all
    from run_extend_ascending [OF others] first Cons \<open>xs = x0 # ys\<close>
    show ?thesis by (simp add: array_sort_def)
  qed
qed

lemma find_unique:
  assumes "a \<in> set xs" and "P a" and "\<And>x. x \<in> set xs \<Longrightarrow> P x \<Longrightarrow> x = a"
  shows "List.find P xs = Some a"
  using assms
proof (induction xs)
  case Nil
  then show ?case by simp
next
  case (Cons x xs)
  show ?case
  proof (cases "P x")
    case True
    with Cons.prems(3) [of x] show ?thesis by simp
  next
    case False
    with Cons.prems(1,2) have "a \<in> set xs" by auto
    from Cons.IH [OF this Cons.prems(2)] Cons.prems(3) False show ?thesis by simp
  qed
qed

text \<open>
  The selection of the signing certificate does not depend on the order of the chain:
  when one certificate of the chain is the issuer of no certificate of the chain (itself
  included) and every other one is the issuer of some certificate of the chain, that
  certificate is selected.
\<close>

lemma signing_certificate_is_leaf:
  assumes "leaf \<in> set chain"
    and "\<And>c. c \<in> set chain \<Longrightarrow> \<not> isIssuer c leaf"
    and "\<And>x. x \<in> set chain \<Longrightarrow> x \<noteq> leaf \<Longrightarrow> \<exists>c \<in> set chain. isIssuer c x"
  shows "findSigningCertificate chain = Some leaf"
  unfolding findSigningCertificate_def
proof (rule find_unique)
  show "leaf \<in> set chain" by (rule assms(1))
  show "\<not> list_ex (\<lambda>c. isIssuer c leaf) chain"
    using assms(2) by (auto simp: list_ex_iff)
  show "x = leaf" if "x \<in> set chain" "\<not> list_ex (\<lambda>c. isIssuer c x) chain" for x
    using that assms(3) [of x] by (auto simp: list_ex_iff)
qed

lemma chainOf_three:
  "chainOf pfx_three = [cert_root, cert_leaf, cert_inter]"
proof -
  have "List.map_filter bag_cert (getBags pfx_three certBag)
        = [cert_root, cert_leaf, cert_inter]"
    by (simp add: getBags_def pfx_three_def List.map_filter_simps cert_bag_def)
  moreover have "array_sort compareCertificates [cert_root, cert_leaf, cert_inter]
        = [cert_root, cert_leaf, cert_inter]"
    by (rule array_sort_kept) (simp add: compare_samples)
  ultimately show ?thesis by (simp add: chainOf_def)
qed

lemma chainOf_self_signed: "chainOf pfx_self_signed = [cert_root]"
  by (simp add: chainOf_def getBags_def pfx_self_signed_def List.map_filter_simps
      cert_bag_def array_sort_def)

text \<open>
  The returned order for the six orders of the bags of the three-certificate chain: four
  come out leaf first and root last, two do not.
\<close>

lemma chain_orders:
  "array_sort compareCertificates [cert_leaf, cert_inter, cert_root]
     = [cert_leaf, cert_inter, cert_root]"
  "array_sort compareCertificates [cert_leaf, cert_root, cert_inter]
     = [cert_leaf, cert_inter, cert_root]"
  "array_sort compareCertificates [cert_inter, cert_leaf, cert_root]
     = [cert_leaf, cert_inter, cert_root]"
  "array_sort compareCertificates [cert_root, cert_inter, cert_leaf]
     = [cert_leaf, cert_inter, cert_root]"
  "array_sort compareCertificates [cert_inter, cert_root, cert_leaf]
     = [cert_inter, cert_root, cert_leaf]"
  "array_sort compareCertificates [cert_root, cert_leaf, cert_inter]
     = [cert_root, cert_leaf, cert_inter]"
  by (simp_all add: array_sort_def compare_samples binary_search.simps)

text \<open>
  The issuer relation follows the hashes of the names, not their attributes alone: the
  leaf whose issuer name has the common name of the root as PrintableString is not seen
  as issued by the root whose subject has it as UTF8String, and the two are returned in
  the order of the bags.
\<close>

lemma string_type_mismatch:
  "map (\<lambda>a. (attr_type a, attr_value a)) (attributes (issuer cert_leaf2))
     = map (\<lambda>a. (attr_type a, attr_value a)) (attributes (subject cert_root_utf8))"
  "\<not> isIssuer cert_leaf2 cert_root_utf8"
  "array_sort compareCertificates [cert_root_utf8, cert_leaf2] = [cert_root_utf8, cert_leaf2]"
proof -
  show "map (\<lambda>a. (attr_type a, attr_value a)) (attributes (issuer cert_leaf2))
     = map (\<lambda>a. (attr_type a, attr_value a)) (attributes (subject cert_root_utf8))"
    by (simp add: cert_leaf2_def cert_root_utf8_def name_root_def name_root_utf8_def cn_def)
  show n: "\<not> isIssuer cert_leaf2 cert_root_utf8"
    by (simp add: isIssuer_def has_hash_def cert_leaf2_def cert_root_utf8_def name_root_def
        name_root_utf8_def)
  have "\<not> isIssuer cert_root_utf8 cert_leaf2"
    by (simp add: isIssuer_def has_hash_def cert_leaf2_def cert_root_utf8_def name_leaf_def
        name_root_utf8_def)
  with n show "array_sort compareCertificates [cert_root_utf8, cert_leaf2]
      = [cert_root_utf8, cert_leaf2]"
    by (simp add: array_sort_two compareCertificates_def)
qed

lemma sample_keylib_eval:
  "pkcs12FromDer (sample_keylib p) pfx ''secret'' = Inr p"
  "importPKCS8 (sample_keylib p) pem = Inr pem"
  by (simp_all add: sample_keylib_def)

lemma key_of_samples:
  "getPkcs8PrivateKeyFromPkcs12 (sample_keylib p) pfx_three = Inr ''key''"
  "getPkcs8PrivateKeyFromPkcs12 (sample_keylib p) pfx_two = Inr ''key''"
  "getPkcs8PrivateKeyFromPkcs12 (sample_keylib p) pfx_self_signed = Inr ''key''"
  by (simp_all add: getPkcs8PrivateKeyFromPkcs12_def getBags_def pfx_three_def pfx_two_def
      pfx_self_signed_def bags_eval bags_eval [symmetric] sample_keylib_def key_bag_def)

text \<open>
  C1 (the code at two failing inputs). The three sample certificates form a strict
  issuance chain (leaf, intermediate, self-signed root). With the bags in the order
  root, leaf, intermediate, the comparator gives 0 for the leaf against the root and 1
  for the intermediate against the leaf, so the array is one ascending run for the sort
  and the returned chain is root, leaf, intermediate: the root is first and the
  intermediate last. For a container with the self-signed root
  alone, a chain of length one, no signing certificate is selected, because the
  certificate counts as an issuer of itself.
\<close>

theorem chain_order_failing_inputs:
  "isIssuer cert_leaf cert_inter \<and> isIssuer cert_inter cert_root
   \<and> isIssuer cert_root cert_root \<and> \<not> isIssuer cert_leaf cert_root
   \<and> parsePfxBytes (sample_keylib pfx_three) [] ''secret''
       = Inr \<lparr>certificateChain = [cert_root, cert_leaf, cert_inter],
              signingCertificate = Some cert_leaf,
              signingCertificatePrivateKey = ''key''\<rparr>
   \<and> parsePfxBytes (sample_keylib pfx_self_signed) [] ''secret''
       = Inr \<lparr>certificateChain = [cert_root],
              signingCertificate = None,
              signingCertificatePrivateKey = ''key''\<rparr>"
proof -
  have f3: "findSigningCertificate [cert_root, cert_leaf, cert_inter] = Some cert_leaf"
    by (simp add: findSigningCertificate_def sample_issuers)
  have f1: "findSigningCertificate [cert_root] = None"
    by (simp add: findSigningCertificate_def sample_issuers)
  have p3: "parsePfxBytes (sample_keylib pfx_three) [] ''secret''
       = Inr \<lparr>certificateChain = [cert_root, cert_leaf, cert_inter],
              signingCertificate = Some cert_leaf,
              signingCertificatePrivateKey = ''key''\<rparr>"
    by (simp add: parsePfxBytes_def Let_def sample_keylib_eval chainOf_three f3 key_of_samples)
  have p1: "parsePfxBytes (sample_keylib pfx_self_signed) [] ''secret''
       = Inr \<lparr>certificateChain = [cert_root],
              signingCertificate = None,
              signingCertificatePrivateKey = ''key''\<rparr>"
    by (simp add: parsePfxBytes_def Let_def sample_keylib_eval chainOf_self_signed f1
        key_of_samples)
  from p3 p1 sample_issuers show ?thesis by simp
qed

subsection \<open>Protected header\<close>

lemma chain_of_two:
  assumes "isIssuer leaf root" and "\<not> isIssuer root leaf"
    and "certs = [leaf, root] \<or> certs = [root, leaf]"
  shows "array_sort compareCertificates certs = [leaf, root]"
  using assms by (auto simp: array_sort_two compareCertificates_def)

lemma signing_certificate_of_two:
  assumes "\<not> isIssuer root leaf" and "\<not> isIssuer leaf leaf"
  shows "findSigningCertificate [leaf, root] = Some leaf"
  using assms by (simp add: findSigningCertificate_def)

lemma parse_two:
  "parsePfxBytes (sample_keylib pfx_two) [] ''secret''
     = Inr \<lparr>certificateChain = [cert_leaf2, cert_root],
            signingCertificate = Some cert_leaf2,
            signingCertificatePrivateKey = ''key''\<rparr>"
proof -
  have "List.map_filter bag_cert (getBags pfx_two certBag) = [cert_root, cert_leaf2]"
    by (simp add: getBags_def pfx_two_def List.map_filter_simps cert_bag_def)
  then have c: "chainOf pfx_two = [cert_leaf2, cert_root]"
    by (simp add: chainOf_def array_sort_two compare_samples)
  have f: "findSigningCertificate [cert_leaf2, cert_root] = Some cert_leaf2"
    by (simp add: findSigningCertificate_def sample_issuers)
  show ?thesis
    by (simp add: parsePfxBytes_def Let_def sample_keylib_eval c f key_of_samples)
qed

lemma kid_of_leaf2:
  "createIssuerSerialAsn1 sample_lib cert_leaf2 =
     Inr (Asn1Nodes 0 16 True
           [Asn1Nodes 0 16 True
             [Asn1Nodes 128 4 True
               [Asn1Nodes 0 16 True
                 [Asn1Nodes 0 17 True
                   [Asn1Nodes 0 16 True
                     [Asn1Bytes 0 6 False [50, 46, 53, 46, 52, 46, 51],
                      Asn1Bytes 0 19 False [82]]]]]],
            Asn1Bytes 0 2 False [4]])"
  by (simp add: createIssuerSerialAsn1_def createIssuerAsn1_def createSerialNumberAsn1_def
      cert_leaf2_def name_root_def cn_def present_def List.map_filter_simps rdn_def
      sample_lib_def
      sample_oids_def UNIVERSAL_def SET_def SEQUENCE_def OID_def CONTEXT_SPECIFIC_def
      OCTETSTRING_def INTEGER_def unhex_def)

text \<open>
  C3 (as stated, refuted): for the container with the two certificates leaf and root, a
  chain of exactly two, the protected header has eight keys, not seven: \<open>alg\<close>, \<open>cty\<close>,
  \<open>typ\<close>, \<open>kid\<close>, \<open>x5t#S256\<close>, \<open>x5c\<close>, \<open>sigT\<close> and \<open>crit\<close>.
\<close>

theorem header_has_eight_keys:
  "map_sum id (map fst)
     (mainProtectedHeader (sample_keylib pfx_two) sample_lib [] ''secret'' 1709288130123)
     = Inr [''alg'', ''cty'', ''typ'', ''kid'', ''x5t#S256'', ''x5c'', ''sigT'', ''crit'']
   \<and> length [''alg'', ''cty'', ''typ'', ''kid'', ''x5t#S256'', ''x5c'', ''sigT'', ''crit'']
       \<noteq> 7"
  by (simp add: mainProtectedHeader_def parse_two protectedHeader_def kid_of_leaf2)

text \<open>
  C3 (amended): for a container that decodes to exactly two certificates, a leaf and
  the root that issued it, in either order of the bags, and for which the key steps and
  the IssuerSerial of the leaf succeed, the protected header is exactly the eight keys
  \<open>alg\<close>, \<open>cty\<close>, \<open>typ\<close>, \<open>kid\<close>, \<open>x5t#S256\<close>, \<open>x5c\<close>, \<open>sigT\<close>, \<open>crit\<close> of the source
  with their values: \<open>x5c\<close> has the two certificates, leaf first, and \<open>crit\<close> is the
  single string \<open>sigT\<close>.
\<close>

theorem header_of_two_chain:
  assumes "pkcs12FromDer K pfx pw = Inr pkcs12"
    and "List.map_filter bag_cert (getBags pkcs12 certBag) = [leaf, root]
         \<or> List.map_filter bag_cert (getBags pkcs12 certBag) = [root, leaf]"
    and "isIssuer leaf root" and "\<not> isIssuer root leaf" and "\<not> isIssuer leaf leaf"
    and "getPkcs8PrivateKeyFromPkcs12 K pkcs12 = Inr pem"
    and "importPKCS8 K pem = Inr key"
    and "createIssuerSerialAsn1 L leaf = Inr keyIdAsn1"
  shows "mainProtectedHeader K L pfx pw now =
           Inr [(''alg'', JString ''RS256''),
                (''cty'', JString ''json''),
                (''typ'', JString ''jose+json''),
                (''kid'', JString (encodeAsn1AsBase64 L keyIdAsn1)),
                (''x5t#S256'', JString (x5tS256 L leaf)),
                (''x5c'', JArray [getCertificateDer L leaf, getCertificateDer L root]),
                (''sigT'', JString (sigT now)),
                (''crit'', JArray [''sigT''])]"
proof -
  have c: "chainOf pkcs12 = [leaf, root]"
    unfolding chainOf_def by (rule chain_of_two [OF assms(3,4,2)])
  have f: "findSigningCertificate [leaf, root] = Some leaf"
    by (rule signing_certificate_of_two [OF assms(4,5)])
  have p: "parsePfxBytes K pfx pw
             = Inr \<lparr>certificateChain = [leaf, root], signingCertificate = Some leaf,
                    signingCertificatePrivateKey = key\<rparr>"
    by (simp add: parsePfxBytes_def Let_def assms(1,6,7) c f)
  show ?thesis
    by (simp add: mainProtectedHeader_def p protectedHeader_def assms(8))
qed

theorem header_of_two_chain_witness:
  "List.map_filter bag_cert (getBags pfx_two certBag) = [cert_root, cert_leaf2]
   \<and> isIssuer cert_leaf2 cert_root \<and> \<not> isIssuer cert_root cert_leaf2
   \<and> \<not> isIssuer cert_leaf2 cert_leaf2
   \<and> mainProtectedHeader (sample_keylib pfx_two) sample_lib [] ''secret'' 1709288130123 =
       Inr [(''alg'', JString ''RS256''),
            (''cty'', JString ''json''),
            (''typ'', JString ''jose+json''),
            (''kid'', JString ''10''),
            (''x5t#S256'', JString ''EA''),
            (''x5c'', JArray [''04'', ''01'']),
            (''sigT'', JString ''2024-03-01T10:15:30Z''),
            (''crit'', JArray [''sigT''])]"
proof -
  have b: "List.map_filter bag_cert (getBags pfx_two certBag) = [cert_root, cert_leaf2]"
    by (simp add: getBags_def pfx_two_def List.map_filter_simps cert_bag_def)
  have kid: "encodeAsn1AsBase64 sample_lib
      (Asn1Nodes 0 16 True
           [Asn1Nodes 0 16 True
             [Asn1Nodes 128 4 True
               [Asn1Nodes 0 16 True
                 [Asn1Nodes 0 17 True
                   [Asn1Nodes 0 16 True
                     [Asn1Bytes 0 6 False [50, 46, 53, 46, 52, 46, 51],
                      Asn1Bytes 0 19 False [82]]]]]],
            Asn1Bytes 0 2 False [4]]) = ''10''"
    by (simp add: encodeAsn1AsBase64_def sample_lib_def hex_digit_def)
  have x5t: "x5tS256 sample_lib cert_leaf2 = ''EA''"
    unfolding x5tS256_def getCertificateThumbprint_def buffer_from_hex_toHex
    by (simp add: sample_lib_def sextet_def url_alphabet_def)
  have der: "getCertificateDer sample_lib cert_leaf2 = ''04''"
    "getCertificateDer sample_lib cert_root = ''01''"
    by code_simp+
  have t: "sigT 1709288130123 = ''2024-03-01T10:15:30Z''"
    using split_from_first [OF date_time_text_no_dot [of 1709288130123],
        of "[]" "pad 3 (nat (1709288130123 mod 1000)) @ ''Z''"]
    by (simp add: sigT_def js_split_def toISOString_def date_time_sample)
  from header_of_two_chain [OF sample_keylib_eval(1) disjI2 [OF b] sample_issuers(10,12,11)
      key_of_samples(2) sample_keylib_eval(2) kid_of_leaf2, of "[]" 1709288130123]
    b sample_issuers(10,12,11)
  show ?thesis by (simp add: kid x5t der t)
qed

subsection \<open>Further facts about the header\<close>

text \<open>
  Whenever a header is assembled, its \<open>x5t#S256\<close> entry is the unpadded URL-safe base64
  text of the digest of the signing certificate, and its \<open>sigT\<close> entry is the signing
  time to the second.
\<close>

lemma header_entries:
  assumes "protectedHeader L parsedPfx now = Inr h"
  shows "\<exists>cert. signingCertificate parsedPfx = Some cert
           \<and> map_of h ''x5t#S256''
               = Some (JString (base64url (sha256 L (toDer L (certificateToAsn1 L cert)))))
           \<and> map_of h ''sigT'' = Some (JString (date_time_text now @ ''Z''))
           \<and> map_of h ''x5c''
               = Some (JArray (map (getCertificateDer L) (certificateChain parsedPfx)))"
proof -
  from assms obtain cert keyIdAsn1 where c: "signingCertificate parsedPfx = Some cert"
    and h: "h = [(''alg'', JString ''RS256''),
                 (''cty'', JString ''json''),
                 (''typ'', JString ''jose+json''),
                 (''kid'', JString (encodeAsn1AsBase64 L keyIdAsn1)),
                 (''x5t#S256'', JString (x5tS256 L cert)),
                 (''x5c'', JArray (map (getCertificateDer L) (certificateChain parsedPfx))),
                 (''sigT'', JString (sigT now)),
                 (''crit'', JArray [''sigT''])]"
    by (auto simp: protectedHeader_def split: option.splits sum.splits)
  have x: "x5tS256 L cert = base64url (sha256 L (toDer L (certificateToAsn1 L cert)))"
    by (simp add: x5tS256_def getCertificateThumbprint_def buffer_from_hex_toHex)
  have t: "sigT now = date_time_text now @ ''Z''"
    using split_from_first [OF date_time_text_no_dot [of now],
        of "[]" "pad 3 (nat (now mod 1000)) @ ''Z''"]
    by (simp add: sigT_def js_split_def toISOString_def)
  from c show ?thesis unfolding h x t by simp
qed

text \<open>
  For the container with the self-signed certificate alone, no signing certificate is
  selected, and assembling the header fails on reading its serial number.
\<close>

lemma self_signed_header_fails:
  "mainProtectedHeader (sample_keylib pfx_self_signed) L [] ''secret'' now
     = Inl (TypeError ''Cannot read properties of undefined (reading 'serialNumber')'')"
proof -
  have f1: "findSigningCertificate [cert_root] = None"
    by (simp add: findSigningCertificate_def sample_issuers)
  have "parsePfxBytes (sample_keylib pfx_self_signed) [] ''secret''
       = Inr \<lparr>certificateChain = [cert_root],
              signingCertificate = None,
              signingCertificatePrivateKey = ''key''\<rparr>"
    by (simp add: parsePfxBytes_def Let_def sample_keylib_eval chainOf_self_signed f1
        key_of_samples)
  then show ?thesis
    by (simp add: mainProtectedHeader_def protectedHeader_def)
qed

end
